theory Spec2Isabelle
  imports Main
begin

section \<open>The Windows registration shim of flutter\_openseeface\_plugin\<close>

text \<open>
  The source file \<^verbatim>\<open>windows/flutter_openseeface_plugin_c_api.cpp\<close> defines one function:
  \<^verbatim>\<open>
  void FlutterOpenseefacePluginCApiRegisterWithRegistrar(
      FlutterDesktopPluginRegistrarRef registrar) {
    flutter_openseeface_plugin::FlutterOpenseefacePlugin::RegisterWithRegistrar(
        flutter::PluginRegistrarManager::GetInstance()
            ->GetRegistrar<flutter::PluginRegistrarWindows>(registrar));
  }
  \<close>
  It calls three functions that are defined elsewhere: \<^verbatim>\<open>GetInstance\<close> and
  \<^verbatim>\<open>GetRegistrar\<close> of the Flutter client wrapper, and the plugin class's static
  \<^verbatim>\<open>RegisterWithRegistrar\<close>. The model takes them as parameters.
\<close>

subsection \<open>Calls into the host\<close>

text \<open>
  The process state is a value of type \<open>'w\<close>. A call takes the state and gives back an
  outcome and the state it leaves. The outcome is \<open>Inr v\<close> when the call returns \<open>v\<close>
  and \<open>Inl e\<close> when it leaves by a C++ exception \<open>e\<close>; what the callee wrote before it
  threw stays written.
\<close>

type_synonym ('e, 'a, 'w) call_result = "('e + 'a) \<times> 'w"

text \<open>
  The three callees. \<open>'ref\<close> is \<^verbatim>\<open>FlutterDesktopPluginRegistrarRef\<close> (an opaque
  pointer), \<open>'mgr\<close> is \<^verbatim>\<open>PluginRegistrarManager*\<close>, \<open>'reg\<close> is
  \<^verbatim>\<open>PluginRegistrarWindows*\<close>.
\<close>

record ('ref, 'mgr, 'reg, 'e, 'w) host =
  GetInstance :: "'w \<Rightarrow> ('e, 'mgr, 'w) call_result"
  GetRegistrar :: "'mgr \<Rightarrow> 'ref \<Rightarrow> 'w \<Rightarrow> ('e, 'reg, 'w) call_result"
  RegisterWithRegistrar :: "'reg \<Rightarrow> 'w \<Rightarrow> ('e, unit, 'w) call_result"

text \<open>
  Sequencing as C++ has it: the value of the first call is handed to the second; an
  exception of the first call skips the second and leaves the function.
\<close>

definition call_then ::
  "('w \<Rightarrow> ('e, 'a, 'w) call_result) \<Rightarrow> ('a \<Rightarrow> 'w \<Rightarrow> ('e, 'b, 'w) call_result)
     \<Rightarrow> 'w \<Rightarrow> ('e, 'b, 'w) call_result" where
  "call_then f k w =
     (case f w of
        (Inl e, w') \<Rightarrow> (Inl e, w')
      | (Inr v, w') \<Rightarrow> k v w')"

subsection \<open>The entry point\<close>

text \<open>
  The body is one expression statement. Its argument
  \<^verbatim>\<open>GetInstance()->GetRegistrar<PluginRegistrarWindows>(registrar)\<close> is evaluated first
  (the manager, then the lookup on it), and its value is passed to
  \<^verbatim>\<open>RegisterWithRegistrar\<close>. The function is \<^verbatim>\<open>void\<close>: its value is \<open>()\<close>.
\<close>

definition FlutterOpenseefacePluginCApiRegisterWithRegistrar ::
  "('ref, 'mgr, 'reg, 'e, 'w) host \<Rightarrow> 'ref \<Rightarrow> 'w \<Rightarrow> ('e, unit, 'w) call_result" where
  "FlutterOpenseefacePluginCApiRegisterWithRegistrar H registrar =
     call_then
       (call_then (GetInstance H) (\<lambda>manager. GetRegistrar H manager registrar))
       (RegisterWithRegistrar H)"

text \<open>
  A host seen through a re-encoding \<open>f\<close> of the handles: the caller's handles are of
  another type, and the lookup receives their images under \<open>f\<close>. A caller that treats
  the handle as an opaque token cannot tell the two hosts apart.
\<close>

definition through ::
  "('a \<Rightarrow> 'ref) \<Rightarrow> ('ref, 'mgr, 'reg, 'e, 'w) host \<Rightarrow> ('a, 'mgr, 'reg, 'e, 'w) host" where
  "through f H =
     \<lparr> GetInstance = GetInstance H,
       GetRegistrar = (\<lambda>m a. GetRegistrar H m (f a)),
       RegisterWithRegistrar = RegisterWithRegistrar H \<rparr>"

subsection \<open>Observing the calls\<close>

text \<open>
  To speak about which calls are made, and in which order, a host is wrapped so that every
  call appends an event to a log carried beside the state: the call with its arguments,
  and whether it returned or threw.
\<close>

datatype ('ref, 'mgr, 'reg) call =
    GetInstanceCall
  | GetRegistrarCall 'mgr 'ref
  | RegisterWithRegistrarCall 'reg

datatype 'e ending = Returned | Threw 'e

type_synonym ('ref, 'mgr, 'reg, 'e) event = "('ref, 'mgr, 'reg) call \<times> 'e ending"

definition ending_of :: "'e + 'a \<Rightarrow> 'e ending" where
  "ending_of res = (case res of Inl e \<Rightarrow> Threw e | Inr v \<Rightarrow> Returned)"

definition record_call ::
  "('ref, 'mgr, 'reg) call \<Rightarrow> ('w \<Rightarrow> ('e, 'a, 'w) call_result)
     \<Rightarrow> ('ref, 'mgr, 'reg, 'e) event list \<times> 'w
     \<Rightarrow> ('e, 'a, ('ref, 'mgr, 'reg, 'e) event list \<times> 'w) call_result" where
  "record_call c f lw =
     (case lw of (log, w) \<Rightarrow>
        (case f w of (res, w') \<Rightarrow> (res, (log @ [(c, ending_of res)], w'))))"

definition logged ::
  "('ref, 'mgr, 'reg, 'e, 'w) host
     \<Rightarrow> ('ref, 'mgr, 'reg, 'e, ('ref, 'mgr, 'reg, 'e) event list \<times> 'w) host" where
  "logged H =
     \<lparr> GetInstance = record_call GetInstanceCall (GetInstance H),
       GetRegistrar = (\<lambda>m h. record_call (GetRegistrarCall m h) (GetRegistrar H m h)),
       RegisterWithRegistrar =
         (\<lambda>r. record_call (RegisterWithRegistrarCall r) (RegisterWithRegistrar H r)) \<rparr>"

text \<open>The events of one invocation, started with an empty log.\<close>

definition trace_of ::
  "('ref, 'mgr, 'reg, 'e, 'w) host \<Rightarrow> 'ref \<Rightarrow> 'w \<Rightarrow> ('ref, 'mgr, 'reg, 'e) event list" where
  "trace_of H registrar w =
     fst (snd (FlutterOpenseefacePluginCApiRegisterWithRegistrar (logged H) registrar ([], w)))"


fun registrations :: "('ref, 'mgr, 'reg, 'e) event list \<Rightarrow> 'reg list" where
  "registrations [] = []"
| "registrations ((RegisterWithRegistrarCall r, x) # evs) = r # registrations evs"
| "registrations (ev # evs) = registrations evs"

section \<open>The plugin's registration routine and the host's registry\<close>

text \<open>
  \<^verbatim>\<open>FlutterOpenseefacePlugin::RegisterWithRegistrar\<close> is defined in
  \<^verbatim>\<open>flutter_openseeface_plugin.cpp\<close>, which is not among the sources. Where a property
  depends on what it does, it is taken from the specification (section 4.1): it
  "adds the plugin to the host's active registry", with "no other observable effects", and
  signals no error.
\<close>

datatype plugin = FlutterOpenseefacePlugin | OtherPlugin nat

text \<open>
  Modelled from the spec: the host-managed registrar state, whose declaration is part of
  the host and not among the sources. Its registry lists the plugins that were added, each
  with the typed registrar it was added through. A state may have further components.
\<close>

record 'reg registrar_state =
  registry :: "('reg \<times> plugin) list"

text \<open>
  Modelled from the spec: "the plugin being present in the host's registry exactly once"
  counts the entries of this plugin in the registry.
\<close>

definition times_registered :: "('reg, 'z) registrar_state_scheme \<Rightarrow> nat" where
  "times_registered w = count_list (map snd (registry w)) FlutterOpenseefacePlugin"

text \<open>
  Modelled from the spec: the body of \<^verbatim>\<open>FlutterOpenseefacePlugin::RegisterWithRegistrar\<close>
  is missing; the specification says that it adds the plugin to the host's active registry
  and has no other observable effect.
\<close>

definition RegisterWithRegistrar_spec ::
  "'reg \<Rightarrow> ('reg, 'z) registrar_state_scheme
     \<Rightarrow> ('e, unit, ('reg, 'z) registrar_state_scheme) call_result" where
  "RegisterWithRegistrar_spec r w =
     (Inr (), w\<lparr>registry := registry w @ [(r, FlutterOpenseefacePlugin)]\<rparr>)"

subsection \<open>A small host for evaluation\<close>

text \<open>
  A concrete host on which the theorems below are evaluated. Its manager is a single
  value; it knows the typed registrar of some handles and throws on any other; its
  registration routine is the one above. The field \<open>untouched\<close> stands for state that
  no callee writes.
\<close>

datatype example_error = UnknownHandle | ManagerUnavailable

record ('ref, 'reg) example_state = "'reg registrar_state" +
  known :: "('ref \<times> 'reg) list"
  untouched :: nat

definition example_host ::
  "(nat, unit, nat, example_error, (nat, nat) example_state) host" where
  "example_host =
     \<lparr> GetInstance = (\<lambda>w. (Inr (), w)),
       GetRegistrar = (\<lambda>m h w. case map_of (known w) h of
                                Some r \<Rightarrow> (Inr r, w)
                              | None \<Rightarrow> (Inl UnknownHandle, w)),
       RegisterWithRegistrar = RegisterWithRegistrar_spec \<rparr>"

definition example_state0 :: "(nat, nat) example_state" where
  "example_state0 =
     \<lparr> registry = [(30, OtherPlugin 1)], known = [(7, 70), (8, 70)], untouched = 42 \<rparr>"

text \<open>
  A second host: it answers as \<open>example_host\<close> does, except that it resolves the
  handle 9, which \<open>example_host\<close> does not know.
\<close>

definition other_host ::
  "(nat, unit, nat, example_error, (nat, nat) example_state) host" where
  "other_host =
     example_host \<lparr> GetRegistrar :=
       (\<lambda>m h w. if h = 9 then (Inr 90, w) else GetRegistrar example_host m h w) \<rparr>"

text \<open>
  A third host, whose manager lookup throws; the other two calls are those of
  \<open>example_host\<close>.
\<close>

definition unavailable_host ::
  "(nat, unit, nat, example_error, (nat, nat) example_state) host" where
  "unavailable_host = example_host \<lparr> GetInstance := (\<lambda>w. (Inl ManagerUnavailable, w)) \<rparr>"

section \<open>How one invocation runs\<close>

text \<open>
  The three ways an invocation can go, for the logged host started on any log: the manager
  lookup throws; the registrar lookup throws; or both return and the registration routine
  is called, whose outcome is the outcome of the entry point.
\<close>

lemma run_GetInstance_throws:
  assumes "GetInstance H w = (Inl e, w1)"
  shows "FlutterOpenseefacePluginCApiRegisterWithRegistrar (logged H) h (log, w) =
           (Inl e, (log @ [(GetInstanceCall, Threw e)], w1))"
  using assms
  by (simp add: FlutterOpenseefacePluginCApiRegisterWithRegistrar_def call_then_def logged_def
      record_call_def ending_of_def)

lemma run_GetRegistrar_throws:
  assumes "GetInstance H w = (Inr m, w1)" and "GetRegistrar H m h w1 = (Inl e, w2)"
  shows "FlutterOpenseefacePluginCApiRegisterWithRegistrar (logged H) h (log, w) =
           (Inl e, (log @ [(GetInstanceCall, Returned), (GetRegistrarCall m h, Threw e)], w2))"
  using assms
  by (simp add: FlutterOpenseefacePluginCApiRegisterWithRegistrar_def call_then_def logged_def
      record_call_def ending_of_def)

lemma run_registers:
  assumes "GetInstance H w = (Inr m, w1)" and "GetRegistrar H m h w1 = (Inr r, w2)"
    and "RegisterWithRegistrar H r w2 = (res, w3)"
  shows "FlutterOpenseefacePluginCApiRegisterWithRegistrar (logged H) h (log, w) =
           (res, (log @ [(GetInstanceCall, Returned), (GetRegistrarCall m h, Returned),
                         (RegisterWithRegistrarCall r, ending_of res)], w3))"
  using assms
  by (simp add: FlutterOpenseefacePluginCApiRegisterWithRegistrar_def call_then_def logged_def
      record_call_def ending_of_def)

text \<open>Logging does not change what the entry point does to the state or what it returns.\<close>

lemma logged_transparent:
  "FlutterOpenseefacePluginCApiRegisterWithRegistrar H h w =
     (case FlutterOpenseefacePluginCApiRegisterWithRegistrar (logged H) h (log, w) of
        (res, (log', w')) \<Rightarrow> (res, w'))"
  by (simp add: FlutterOpenseefacePluginCApiRegisterWithRegistrar_def call_then_def logged_def
      record_call_def split: prod.splits sum.splits)

lemma ending_of_simps [simp]: "ending_of (Inl e) = Threw e" "ending_of (Inr v) = Returned"
  by (simp_all add: ending_of_def)

text \<open>
  Every invocation goes one of three ways: the manager lookup throws, the registrar
  lookup throws, or the registration routine is reached.
\<close>

lemma entry_cases:
  obtains (gi) e w1 where "GetInstance H w = (Inl e, w1)"
  | (gr) m w1 e w2 where "GetInstance H w = (Inr m, w1)" "GetRegistrar H m h w1 = (Inl e, w2)"
  | (rr) m w1 r w2 res w3 where "GetInstance H w = (Inr m, w1)" "GetRegistrar H m h w1 = (Inr r, w2)"
      "RegisterWithRegistrar H r w2 = (res, w3)"
proof (cases "GetInstance H w")
  case (Pair a w1)
  show ?thesis
  proof (cases a)
    case (Inl e) with Pair gi show ?thesis by simp
  next
    case (Inr m)
    show ?thesis
    proof (cases "GetRegistrar H m h w1")
      case gr': (Pair b w2)
      show ?thesis
      proof (cases b)
        case (Inl e) with Pair Inr gr' gr show ?thesis by simp
      next
        case r: (Inr r)
        obtain res w3 where "RegisterWithRegistrar H r w2 = (res, w3)" by (cases "RegisterWithRegistrar H r w2")
        with Pair Inr gr' r rr show ?thesis by simp
      qed
    qed
  qed
qed

text \<open>
  The outcome, the final state and the events of each way, for the host as it is.
\<close>

lemma entry_GetInstance_throws:
  "GetInstance H w = (Inl e, w1) \<Longrightarrow>
   FlutterOpenseefacePluginCApiRegisterWithRegistrar H h w = (Inl e, w1)"
  by (simp add: FlutterOpenseefacePluginCApiRegisterWithRegistrar_def call_then_def)

lemma entry_GetRegistrar_throws:
  "GetInstance H w = (Inr m, w1) \<Longrightarrow> GetRegistrar H m h w1 = (Inl e, w2) \<Longrightarrow>
   FlutterOpenseefacePluginCApiRegisterWithRegistrar H h w = (Inl e, w2)"
  by (simp add: FlutterOpenseefacePluginCApiRegisterWithRegistrar_def call_then_def)

lemma entry_registers:
  "GetInstance H w = (Inr m, w1) \<Longrightarrow> GetRegistrar H m h w1 = (Inr r, w2) \<Longrightarrow>
   FlutterOpenseefacePluginCApiRegisterWithRegistrar H h w = RegisterWithRegistrar H r w2"
  by (simp add: FlutterOpenseefacePluginCApiRegisterWithRegistrar_def call_then_def)

lemma trace_GetInstance_throws:
  "GetInstance H w = (Inl e, w1) \<Longrightarrow> trace_of H h w = [(GetInstanceCall, Threw e)]"
  by (simp add: trace_of_def run_GetInstance_throws)

lemma trace_GetRegistrar_throws:
  "GetInstance H w = (Inr m, w1) \<Longrightarrow> GetRegistrar H m h w1 = (Inl e, w2) \<Longrightarrow>
   trace_of H h w = [(GetInstanceCall, Returned), (GetRegistrarCall m h, Threw e)]"
  by (simp add: trace_of_def run_GetRegistrar_throws)

lemma trace_registers:
  "GetInstance H w = (Inr m, w1) \<Longrightarrow> GetRegistrar H m h w1 = (Inr r, w2) \<Longrightarrow>
   RegisterWithRegistrar H r w2 = (res, w3) \<Longrightarrow>
   trace_of H h w = [(GetInstanceCall, Returned), (GetRegistrarCall m h, Returned),
                     (RegisterWithRegistrarCall r, ending_of res)]"
  by (simp add: trace_of_def run_registers)

subsection \<open>The calls of the evaluation host\<close>

lemma example_GetInstance [simp]: "GetInstance example_host w = (Inr (), w)"
  by (simp add: example_host_def)

lemma example_GetRegistrar [simp]:
  "GetRegistrar example_host m h w =
     (case map_of (known w) h of Some r \<Rightarrow> (Inr r, w) | None \<Rightarrow> (Inl UnknownHandle, w))"
  by (simp add: example_host_def)

lemma example_RegisterWithRegistrar [simp]:
  "RegisterWithRegistrar example_host = RegisterWithRegistrar_spec"
  by (simp add: example_host_def)

section \<open>Properties of the entry point\<close>

text \<open>
  C1. For every registrar handle, the entry point obtains the registrar-manager singleton,
  resolves from it the typed registrar for that handle, and invokes the plugin's static
  registration routine on that typed registrar, in this order. When the manager lookup
  returns \<open>m\<close> and the lookup of the handle \<open>h\<close> on \<open>m\<close> returns \<open>r\<close>, the calls
  made are exactly \<open>GetInstance\<close>, \<open>GetRegistrar m h\<close>, \<open>RegisterWithRegistrar r\<close>,
  and the entry point ends as that last call ends.
\<close>

theorem registration_steps_in_order:
  assumes "GetInstance H w = (Inr m, w1)" and "GetRegistrar H m h w1 = (Inr r, w2)"
  shows "map fst (trace_of H h w) =
           [GetInstanceCall, GetRegistrarCall m h, RegisterWithRegistrarCall r] \<and>
         FlutterOpenseefacePluginCApiRegisterWithRegistrar H h w = RegisterWithRegistrar H r w2"
proof -
  obtain res w3 where "RegisterWithRegistrar H r w2 = (res, w3)"
    by (cases "RegisterWithRegistrar H r w2")
  with assms show ?thesis
    by (simp add: trace_registers entry_registers)
qed

theorem registration_steps_in_order_witness:
  "GetInstance example_host example_state0 = (Inr (), example_state0) \<and>
   GetRegistrar example_host () 7 example_state0 = (Inr 70, example_state0) \<and>
   map fst (trace_of example_host 7 example_state0) =
     [GetInstanceCall, GetRegistrarCall () 7, RegisterWithRegistrarCall 70] \<and>
   FlutterOpenseefacePluginCApiRegisterWithRegistrar example_host 7 example_state0 =
     (Inr (), example_state0\<lparr>registry := [(30, OtherPlugin 1), (70, FlutterOpenseefacePlugin)]\<rparr>)"
proof -
  have gi: "GetInstance example_host example_state0 = (Inr (), example_state0)" by simp
  have gr: "GetRegistrar example_host () 7 example_state0 = (Inr 70, example_state0)"
    by (simp add: example_state0_def)
  from registration_steps_in_order [OF gi gr] gi gr show ?thesis
    by (simp add: RegisterWithRegistrar_spec_def example_state0_def)
qed

text \<open>
  C2. For a valid handle, one invocation leaves the plugin in the host's registry exactly
  once, with no other effect and no exception. A handle is valid when the host resolves it:
  the manager lookup and the registrar lookup return, and they leave the registry as it
  was. The registration routine is the one taken from the specification. Then the entry
  point returns normally, the routine is called exactly once, the final state is the state
  the lookups left with the plugin appended to the registry, and the plugin is present
  once more than before: exactly once when it was absent.
\<close>

theorem registered_exactly_once:
  fixes H :: "('ref, 'mgr, 'reg, 'e, ('reg, 'z) registrar_state_scheme) host"
  assumes "RegisterWithRegistrar H = RegisterWithRegistrar_spec"
    and "GetInstance H w = (Inr m, w1)" and "GetRegistrar H m h w1 = (Inr r, w2)"
    and "registry w2 = registry w"
  shows "FlutterOpenseefacePluginCApiRegisterWithRegistrar H h w =
           (Inr (), w2\<lparr>registry := registry w @ [(r, FlutterOpenseefacePlugin)]\<rparr>) \<and>
         registrations (trace_of H h w) = [r] \<and>
         times_registered (snd (FlutterOpenseefacePluginCApiRegisterWithRegistrar H h w)) =
           Suc (times_registered w) \<and>
         (times_registered w = 0 \<longrightarrow>
            times_registered (snd (FlutterOpenseefacePluginCApiRegisterWithRegistrar H h w)) = 1)"
proof -
  have rr: "RegisterWithRegistrar H r w2 =
      (Inr (), w2\<lparr>registry := registry w @ [(r, FlutterOpenseefacePlugin)]\<rparr>)"
    using assms(1,4) by (simp add: RegisterWithRegistrar_spec_def)
  have run: "FlutterOpenseefacePluginCApiRegisterWithRegistrar H h w =
      (Inr (), w2\<lparr>registry := registry w @ [(r, FlutterOpenseefacePlugin)]\<rparr>)"
    using entry_registers [OF assms(2,3)] rr by simp
  have tr: "registrations (trace_of H h w) = [r]"
    using trace_registers [OF assms(2,3) rr] by simp
  have cnt: "times_registered (snd (FlutterOpenseefacePluginCApiRegisterWithRegistrar H h w)) =
      Suc (times_registered w)"
    by (simp add: run times_registered_def)
  from run tr cnt show ?thesis by simp
qed

theorem registered_exactly_once_witness:
  "RegisterWithRegistrar example_host = RegisterWithRegistrar_spec \<and>
   GetInstance example_host example_state0 = (Inr (), example_state0) \<and>
   GetRegistrar example_host () 7 example_state0 = (Inr 70, example_state0) \<and>
   times_registered example_state0 = 0 \<and>
   FlutterOpenseefacePluginCApiRegisterWithRegistrar example_host 7 example_state0 =
     (Inr (), example_state0\<lparr>registry := [(30, OtherPlugin 1), (70, FlutterOpenseefacePlugin)]\<rparr>) \<and>
   registrations (trace_of example_host 7 example_state0) = [70] \<and>
   times_registered
     (snd (FlutterOpenseefacePluginCApiRegisterWithRegistrar example_host 7 example_state0)) = 1"
proof -
  have rr: "RegisterWithRegistrar example_host = RegisterWithRegistrar_spec" by simp
  have gi: "GetInstance example_host example_state0 = (Inr (), example_state0)" by simp
  have gr: "GetRegistrar example_host () 7 example_state0 = (Inr 70, example_state0)"
    by (simp add: example_state0_def)
  have z: "times_registered example_state0 = 0"
    by (simp add: times_registered_def example_state0_def)
  from registered_exactly_once [OF rr gi gr refl] rr gi gr z show ?thesis
    by (simp add: example_state0_def times_registered_def)
qed

text \<open>
  C3. The entry point takes one argument, an opaque registrar reference, and returns no
  value. In the model the handle is the one argument of the C function; the host and the
  state are the process it runs in. Its outcome is \<open>()\<close> or an exception, and it is
  \<open>()\<close> exactly when the two lookups and the registration call return: nothing is handed
  back to the caller but the fact that registration returned. The reference is opaque to
  the entry point: under any re-encoding \<open>f\<close> of the handles, running on the host seen
  through \<open>f\<close> with a handle \<open>a\<close> is running on the host itself with \<open>f a\<close>, so
  the entry point does nothing with the handle but pass it on.
\<close>

theorem opaque_handle_and_no_value:
  "(fst (FlutterOpenseefacePluginCApiRegisterWithRegistrar H h w) = Inr () \<or>
    (\<exists>e. fst (FlutterOpenseefacePluginCApiRegisterWithRegistrar H h w) = Inl e)) \<and>
   (fst (FlutterOpenseefacePluginCApiRegisterWithRegistrar H h w) = Inr ()) =
     (\<exists>m w1 r w2 w3. GetInstance H w = (Inr m, w1) \<and> GetRegistrar H m h w1 = (Inr r, w2) \<and>
        RegisterWithRegistrar H r w2 = (Inr (), w3)) \<and>
   FlutterOpenseefacePluginCApiRegisterWithRegistrar (through f H) a w =
     FlutterOpenseefacePluginCApiRegisterWithRegistrar H (f a) w"
proof -
  have opaque: "FlutterOpenseefacePluginCApiRegisterWithRegistrar (through f H) a w =
      FlutterOpenseefacePluginCApiRegisterWithRegistrar H (f a) w"
    by (simp add: FlutterOpenseefacePluginCApiRegisterWithRegistrar_def through_def)
  have unit_or_exn: "fst (FlutterOpenseefacePluginCApiRegisterWithRegistrar H h w) = Inr () \<or>
      (\<exists>e. fst (FlutterOpenseefacePluginCApiRegisterWithRegistrar H h w) = Inl e)"
    by (cases "fst (FlutterOpenseefacePluginCApiRegisterWithRegistrar H h w)") simp_all
  have returns: "(fst (FlutterOpenseefacePluginCApiRegisterWithRegistrar H h w) = Inr ()) =
      (\<exists>m w1 r w2 w3. GetInstance H w = (Inr m, w1) \<and> GetRegistrar H m h w1 = (Inr r, w2) \<and>
         RegisterWithRegistrar H r w2 = (Inr (), w3))"
  proof (cases rule: entry_cases [where H = H and w = w and h = h])
    case (gi e w1)
    then show ?thesis by (simp add: entry_GetInstance_throws)
  next
    case (gr m w1 e w2)
    then show ?thesis by (simp add: entry_GetRegistrar_throws)
  next
    case (rr m w1 r w2 res w3)
    then show ?thesis by (cases res) (simp_all add: entry_registers)
  qed
  from unit_or_exn returns opaque show ?thesis by simp
qed

theorem opaque_handle_and_no_value_witness:
  "fst (FlutterOpenseefacePluginCApiRegisterWithRegistrar example_host 7 example_state0) = Inr () \<and>
   fst (FlutterOpenseefacePluginCApiRegisterWithRegistrar example_host 9 example_state0) =
     Inl UnknownHandle \<and>
   GetRegistrar example_host () 9 example_state0 = (Inl UnknownHandle, example_state0) \<and>
   FlutterOpenseefacePluginCApiRegisterWithRegistrar (through Suc example_host) 6 example_state0 =
     (Inr (), example_state0\<lparr>registry := [(30, OtherPlugin 1), (70, FlutterOpenseefacePlugin)]\<rparr>)"
proof -
  have gi: "GetInstance example_host example_state0 = (Inr (), example_state0)" by simp
  have gr7: "GetRegistrar example_host () 7 example_state0 = (Inr 70, example_state0)"
    by (simp add: example_state0_def)
  have gr9: "GetRegistrar example_host () 9 example_state0 = (Inl UnknownHandle, example_state0)"
    by (simp add: example_state0_def)
  have rr: "RegisterWithRegistrar example_host 70 example_state0 =
      (Inr (), example_state0\<lparr>registry := [(30, OtherPlugin 1), (70, FlutterOpenseefacePlugin)]\<rparr>)"
    by (simp add: RegisterWithRegistrar_spec_def example_state0_def)
  have run7: "FlutterOpenseefacePluginCApiRegisterWithRegistrar example_host 7 example_state0 =
      (Inr (), example_state0\<lparr>registry := [(30, OtherPlugin 1), (70, FlutterOpenseefacePlugin)]\<rparr>)"
    using entry_registers [OF gi gr7] rr by simp
  have ex: "\<exists>m w1 r w2 w3. GetInstance example_host example_state0 = (Inr m, w1) \<and>
      GetRegistrar example_host m 7 w1 = (Inr r, w2) \<and>
      RegisterWithRegistrar example_host r w2 = (Inr (), w3)"
    using gi gr7 rr by blast
  have no: "\<not> (\<exists>m w1 r w2 w3. GetInstance example_host example_state0 = (Inr m, w1) \<and>
      GetRegistrar example_host m 9 w1 = (Inr r, w2) \<and>
      RegisterWithRegistrar example_host r w2 = (Inr (), w3))"
    using gr9 by simp
  have a: "fst (FlutterOpenseefacePluginCApiRegisterWithRegistrar example_host 7 example_state0) = Inr ()"
    using opaque_handle_and_no_value [of example_host 7 example_state0 Suc 6] ex by simp
  have b: "fst (FlutterOpenseefacePluginCApiRegisterWithRegistrar example_host 9 example_state0) =
      Inl UnknownHandle"
    using opaque_handle_and_no_value [of example_host 9 example_state0 Suc 6] no
      entry_GetRegistrar_throws [OF gi gr9] by simp
  have c: "FlutterOpenseefacePluginCApiRegisterWithRegistrar (through Suc example_host) 6 example_state0 =
      (Inr (), example_state0\<lparr>registry := [(30, OtherPlugin 1), (70, FlutterOpenseefacePlugin)]\<rparr>)"
    using opaque_handle_and_no_value [of example_host 7 example_state0 Suc 6] run7 by simp
  from a b gr9 c show ?thesis by simp
qed

text \<open>
  C4. The entry point has no error path of its own. For every handle \<open>h\<close>, valid or not,
  it goes the same way, and which calls are made is decided by the endings of the calls
  alone, never by the handle:
  \<^item> when the manager lookup throws \<open>e\<close>, that is the only call, and the entry point ends
    with the same \<open>e\<close> in the state the lookup left;
  \<^item> when the manager lookup returns \<open>m\<close> and the lookup of \<open>h\<close> on \<open>m\<close> throws \<open>e\<close>,
    these are the only two calls, and the entry point ends with the same \<open>e\<close> in the state
    that lookup left;
  \<^item> when both lookups return, the registration routine is called on the registrar found,
    once, and the entry point ends exactly as that call ends: with its exception if it
    throws, in its state.
  So an exception of the entry point is always the exception of the last call it made,
  unchanged, with every earlier call returned and nothing called after it (no error of
  its own, no conversion, no retry); and when the entry point returns, the three calls
  are those of the manager lookup, the lookup of \<open>h\<close> and the registration, all returned
  (nothing caught).
\<close>

theorem no_error_path_of_its_own:
  "(case fst (FlutterOpenseefacePluginCApiRegisterWithRegistrar H h w) of
      Inl e \<Rightarrow> trace_of H h w \<noteq> [] \<and> snd (last (trace_of H h w)) = Threw e \<and>
               list_all (\<lambda>ev. snd ev = Returned) (butlast (trace_of H h w))
    | Inr v \<Rightarrow> (\<exists>m r. trace_of H h w =
                 [(GetInstanceCall, Returned), (GetRegistrarCall m h, Returned),
                  (RegisterWithRegistrarCall r, Returned)])) \<and>
   (\<forall>e w1. GetInstance H w = (Inl e, w1) \<longrightarrow>
      FlutterOpenseefacePluginCApiRegisterWithRegistrar H h w = (Inl e, w1) \<and>
      trace_of H h w = [(GetInstanceCall, Threw e)]) \<and>
   (\<forall>m w1 e w2. GetInstance H w = (Inr m, w1) \<longrightarrow> GetRegistrar H m h w1 = (Inl e, w2) \<longrightarrow>
      FlutterOpenseefacePluginCApiRegisterWithRegistrar H h w = (Inl e, w2) \<and>
      trace_of H h w = [(GetInstanceCall, Returned), (GetRegistrarCall m h, Threw e)]) \<and>
   (\<forall>m w1 r w2. GetInstance H w = (Inr m, w1) \<longrightarrow> GetRegistrar H m h w1 = (Inr r, w2) \<longrightarrow>
      FlutterOpenseefacePluginCApiRegisterWithRegistrar H h w = RegisterWithRegistrar H r w2 \<and>
      trace_of H h w =
        [(GetInstanceCall, Returned), (GetRegistrarCall m h, Returned),
         (RegisterWithRegistrarCall r, ending_of (fst (RegisterWithRegistrar H r w2)))])"
proof (cases rule: entry_cases [where H = H and w = w and h = h])
  case (gi e w1)
  then show ?thesis
    by (simp add: entry_GetInstance_throws trace_GetInstance_throws)
next
  case (gr m w1 e w2)
  then show ?thesis
    by (simp add: entry_GetRegistrar_throws trace_GetRegistrar_throws)
next
  case (rr m w1 r w2 res w3)
  then show ?thesis
    by (cases res) (simp_all add: entry_registers trace_registers)
qed

theorem no_error_path_of_its_own_witness:
  "GetInstance unavailable_host example_state0 = (Inl ManagerUnavailable, example_state0) \<and>
   FlutterOpenseefacePluginCApiRegisterWithRegistrar unavailable_host 7 example_state0 =
     (Inl ManagerUnavailable, example_state0) \<and>
   trace_of unavailable_host 7 example_state0 = [(GetInstanceCall, Threw ManagerUnavailable)] \<and>
   GetInstance example_host example_state0 = (Inr (), example_state0) \<and>
   GetRegistrar example_host () 9 example_state0 = (Inl UnknownHandle, example_state0) \<and>
   FlutterOpenseefacePluginCApiRegisterWithRegistrar example_host 9 example_state0 =
     (Inl UnknownHandle, example_state0) \<and>
   trace_of example_host 9 example_state0 =
     [(GetInstanceCall, Returned), (GetRegistrarCall () 9, Threw UnknownHandle)] \<and>
   GetRegistrar example_host () 7 example_state0 = (Inr 70, example_state0) \<and>
   FlutterOpenseefacePluginCApiRegisterWithRegistrar example_host 7 example_state0 =
     (Inr (), example_state0\<lparr>registry := [(30, OtherPlugin 1), (70, FlutterOpenseefacePlugin)]\<rparr>) \<and>
   trace_of example_host 7 example_state0 =
     [(GetInstanceCall, Returned), (GetRegistrarCall () 7, Returned),
      (RegisterWithRegistrarCall 70, Returned)]"
proof -
  have giu: "GetInstance unavailable_host example_state0 =
      (Inl ManagerUnavailable, example_state0)"
    by (simp add: unavailable_host_def)
  have gi: "GetInstance example_host example_state0 = (Inr (), example_state0)" by simp
  have gr9: "GetRegistrar example_host () 9 example_state0 = (Inl UnknownHandle, example_state0)"
    by (simp add: example_state0_def)
  have gr7: "GetRegistrar example_host () 7 example_state0 = (Inr 70, example_state0)"
    by (simp add: example_state0_def)
  have rr: "RegisterWithRegistrar example_host 70 example_state0 =
      (Inr (), example_state0\<lparr>registry := [(30, OtherPlugin 1), (70, FlutterOpenseefacePlugin)]\<rparr>)"
    by (simp add: RegisterWithRegistrar_spec_def example_state0_def)
  from no_error_path_of_its_own [of unavailable_host 7 example_state0]
    no_error_path_of_its_own [of example_host 9 example_state0]
    no_error_path_of_its_own [of example_host 7 example_state0]
    giu gi gr9 gr7 rr
  show ?thesis by simp
qed

text \<open>
  C5. The entry point mutates nothing but what its forwarded calls into the host mutate:
  every component \<open>obs\<close> of the state that the three callees leave unchanged is unchanged
  between entry and return.
\<close>

theorem only_forwarded_calls_mutate:
  assumes gi: "\<forall>w. obs (snd (GetInstance H w)) = obs w"
    and gr: "\<forall>m h w. obs (snd (GetRegistrar H m h w)) = obs w"
    and rr: "\<forall>r w. obs (snd (RegisterWithRegistrar H r w)) = obs w"
  shows "obs (snd (FlutterOpenseefacePluginCApiRegisterWithRegistrar H h w)) = obs w"
proof (cases rule: entry_cases [where H = H and w = w and h = h])
  case (gi e w1)
  with assms(1) [rule_format, of w] show ?thesis
    by (simp add: entry_GetInstance_throws)
next
  case (gr m w1 e w2)
  with assms(1) [rule_format, of w] assms(2) [rule_format, of m h w1] show ?thesis
    by (simp add: entry_GetRegistrar_throws)
next
  case (rr m w1 r w2 res w3)
  with assms(1) [rule_format, of w] assms(2) [rule_format, of m h w1]
    assms(3) [rule_format, of r w2] show ?thesis
    by (simp add: entry_registers)
qed

theorem only_forwarded_calls_mutate_witness:
  "(\<forall>w. untouched (snd (GetInstance example_host w)) = untouched w) \<and>
   (\<forall>m h w. untouched (snd (GetRegistrar example_host m h w)) = untouched w) \<and>
   (\<forall>r w. untouched (snd (RegisterWithRegistrar example_host r w)) = untouched w) \<and>
   untouched (snd (FlutterOpenseefacePluginCApiRegisterWithRegistrar example_host 7 example_state0)) = 42 \<and>
   known (snd (FlutterOpenseefacePluginCApiRegisterWithRegistrar example_host 7 example_state0)) = [(7, 70), (8, 70)] \<and>
   registry (snd (FlutterOpenseefacePluginCApiRegisterWithRegistrar example_host 7 example_state0)) \<noteq> registry example_state0"
proof -
  have gi: "\<forall>w. untouched (snd (GetInstance example_host w)) = untouched w" by simp
  have gr: "\<forall>m h w. untouched (snd (GetRegistrar example_host m h w)) = untouched w"
    by (simp split: option.splits)
  have rr: "\<forall>r w. untouched (snd (RegisterWithRegistrar example_host r w)) = untouched w"
    by (simp add: RegisterWithRegistrar_spec_def)
  have gi': "\<forall>w. known (snd (GetInstance example_host w)) = known w" by simp
  have gr': "\<forall>m h w. known (snd (GetRegistrar example_host m h w)) = known w"
    by (simp split: option.splits)
  have rr': "\<forall>r w. known (snd (RegisterWithRegistrar example_host r w)) = known w"
    by (simp add: RegisterWithRegistrar_spec_def)
  have reg: "registry (snd (FlutterOpenseefacePluginCApiRegisterWithRegistrar example_host 7 example_state0)) \<noteq> registry example_state0"
    by (simp add: FlutterOpenseefacePluginCApiRegisterWithRegistrar_def call_then_def
        RegisterWithRegistrar_spec_def example_state0_def)
  from only_forwarded_calls_mutate [of untouched example_host 7 example_state0, OF gi gr rr]
    only_forwarded_calls_mutate [of known example_host 7 example_state0, OF gi' gr' rr']
    gi gr rr reg
  show ?thesis by (simp add: example_state0_def)
qed

text \<open>
  C6. The handle is only borrowed. It reaches the outcome and the final state through the
  registrar lookup alone: if the host's lookup answers alike for two handles \<open>h\<close> and
  \<open>h'\<close> at the state where it is called, the two invocations return the same value and
  leave the same state. So no copy of the handle is kept anywhere in the state by the
  entry point itself.
\<close>

theorem handle_not_retained:
  assumes "\<forall>m w1. GetInstance H w = (Inr m, w1) \<longrightarrow> GetRegistrar H m h w1 = GetRegistrar H m h' w1"
  shows "FlutterOpenseefacePluginCApiRegisterWithRegistrar H h w =
         FlutterOpenseefacePluginCApiRegisterWithRegistrar H h' w"
proof (cases "GetInstance H w")
  case (Pair a w1)
  show ?thesis
  proof (cases a)
    case (Inl e)
    with Pair show ?thesis by (simp add: entry_GetInstance_throws)
  next
    case (Inr m)
    with Pair assms have "GetRegistrar H m h w1 = GetRegistrar H m h' w1" by simp
    with Pair Inr show ?thesis
      by (simp add: FlutterOpenseefacePluginCApiRegisterWithRegistrar_def call_then_def)
  qed
qed

theorem handle_not_retained_witness:
  "GetInstance example_host example_state0 = (Inr (), example_state0) \<and>
   GetRegistrar example_host () 7 example_state0 = GetRegistrar example_host () 8 example_state0 \<and>
   FlutterOpenseefacePluginCApiRegisterWithRegistrar example_host 7 example_state0 =
   FlutterOpenseefacePluginCApiRegisterWithRegistrar example_host 8 example_state0 \<and>
   FlutterOpenseefacePluginCApiRegisterWithRegistrar example_host 8 example_state0 =
     (Inr (), example_state0\<lparr>registry := [(30, OtherPlugin 1), (70, FlutterOpenseefacePlugin)]\<rparr>)"
proof -
  have same: "\<forall>m w1. GetInstance example_host example_state0 = (Inr m, w1) \<longrightarrow>
      GetRegistrar example_host m 7 w1 = GetRegistrar example_host m 8 w1"
    by (simp add: example_state0_def)
  have run: "FlutterOpenseefacePluginCApiRegisterWithRegistrar example_host 8 example_state0 =
     (Inr (), example_state0\<lparr>registry := [(30, OtherPlugin 1), (70, FlutterOpenseefacePlugin)]\<rparr>)"
    by (simp add: FlutterOpenseefacePluginCApiRegisterWithRegistrar_def call_then_def
        RegisterWithRegistrar_spec_def example_state0_def)
  from handle_not_retained [OF same] run show ?thesis by (simp add: example_state0_def)
qed



text \<open>
  C9. The entry point is deterministic: two invocations with equal handles and equal
  states, in which the host answers the calls alike, make the same calls with the same
  endings, return the same value and leave the same state. The two hosts need to agree only
  on the calls that are made; for one and the same host this holds for every handle and
  state.
\<close>

theorem entry_point_deterministic:
  assumes "h1 = h2" and "w1 = w2"
    and gi: "GetInstance H1 w1 = GetInstance H2 w2"
    and gr: "\<forall>m w'. GetInstance H1 w1 = (Inr m, w') \<longrightarrow>
               GetRegistrar H1 m h1 w' = GetRegistrar H2 m h2 w'"
    and rr: "\<forall>m w' r w''. GetInstance H1 w1 = (Inr m, w') \<longrightarrow>
               GetRegistrar H1 m h1 w' = (Inr r, w'') \<longrightarrow>
               RegisterWithRegistrar H1 r w'' = RegisterWithRegistrar H2 r w''"
  shows "FlutterOpenseefacePluginCApiRegisterWithRegistrar (logged H1) h1 ([], w1) =
         FlutterOpenseefacePluginCApiRegisterWithRegistrar (logged H2) h2 ([], w2)"
proof (cases rule: entry_cases [where H = H1 and w = w1 and h = h1])
  case (gi e w')
  with assms(3) have "GetInstance H2 w2 = (Inl e, w')" by simp
  with gi show ?thesis by (simp add: run_GetInstance_throws)
next
  case (gr m w' e w'')
  from gr(1) assms(3) have a: "GetInstance H2 w2 = (Inr m, w')" by simp
  from gr assms(4) have b: "GetRegistrar H2 m h2 w' = (Inl e, w'')" by simp
  from gr a b assms(1) show ?thesis by (simp add: run_GetRegistrar_throws)
next
  case (rr m w' r w'' res w3)
  from rr(1) assms(3) have a: "GetInstance H2 w2 = (Inr m, w')" by simp
  from rr assms(4) have b: "GetRegistrar H2 m h2 w' = (Inr r, w'')" by simp
  from rr assms(5) have c: "RegisterWithRegistrar H2 r w'' = (res, w3)" by simp
  from rr a b c assms(1) show ?thesis by (simp add: run_registers)
qed

theorem entry_point_deterministic_witness:
  "(7::nat) = 7 \<and> example_state0 = example_state0 \<and>
   GetInstance example_host example_state0 = GetInstance other_host example_state0 \<and>
   GetRegistrar example_host () 9 example_state0 \<noteq> GetRegistrar other_host () 9 example_state0 \<and>
   FlutterOpenseefacePluginCApiRegisterWithRegistrar (logged example_host) 7 ([], example_state0) =
   FlutterOpenseefacePluginCApiRegisterWithRegistrar (logged other_host) 7 ([], example_state0) \<and>
   FlutterOpenseefacePluginCApiRegisterWithRegistrar (logged example_host) 7 ([], example_state0) =
   (Inr (),
    [(GetInstanceCall, Returned), (GetRegistrarCall () 7, Returned),
     (RegisterWithRegistrarCall 70, Returned)],
    example_state0\<lparr>registry := [(30, OtherPlugin 1), (70, FlutterOpenseefacePlugin)]\<rparr>)"
proof -
  have gi: "GetInstance example_host example_state0 = GetInstance other_host example_state0"
    by (simp add: other_host_def)
  have gr: "\<forall>m w'. GetInstance example_host example_state0 = (Inr m, w') \<longrightarrow>
      GetRegistrar example_host m 7 w' = GetRegistrar other_host m 7 w'"
    by (simp add: other_host_def)
  have rr: "\<forall>m w' r w''. GetInstance example_host example_state0 = (Inr m, w') \<longrightarrow>
      GetRegistrar example_host m 7 w' = (Inr r, w'') \<longrightarrow>
      RegisterWithRegistrar example_host r w'' = RegisterWithRegistrar other_host r w''"
    by (simp add: other_host_def)
  have diff: "GetRegistrar example_host () 9 example_state0 \<noteq>
      GetRegistrar other_host () 9 example_state0"
    by (simp add: other_host_def example_state0_def)
  have run: "FlutterOpenseefacePluginCApiRegisterWithRegistrar (logged example_host) 7 ([], example_state0) =
   (Inr (),
    [(GetInstanceCall, Returned), (GetRegistrarCall () 7, Returned),
     (RegisterWithRegistrarCall 70, Returned)],
    example_state0\<lparr>registry := [(30, OtherPlugin 1), (70, FlutterOpenseefacePlugin)]\<rparr>)"
    by (simp add: FlutterOpenseefacePluginCApiRegisterWithRegistrar_def call_then_def
        logged_def record_call_def RegisterWithRegistrar_spec_def example_state0_def)
  from entry_point_deterministic [OF refl refl gi gr rr] gi diff run show ?thesis by simp
qed

end
